theory Spec2Isabelle
  imports Main
begin

section \<open>Values, functions and the heap of Deferred objects\<close>

text \<open>
  A shallow embedding of \<^verbatim>\<open>src/deferred.js\<close>. Every Deferred object is a heap cell
  holding the variables its constructor closes over; a reference is the address of the
  cell. Javascript functions are first-class data of the heap, so they are a datatype:
  a user-supplied function, or one of the closures the library itself creates.
\<close>

type_synonym ref = nat

text \<open>The \<^verbatim>\<open>Error\<close> objects the library constructs, and the TypeError of the engine.\<close>

datatype jserror =
    ErrbackWithoutError     \<comment> \<open>"errback called without error as argument!"\<close>
  | ErrorInErrback          \<comment> \<open>"error in errback, won't continue!"\<close>
  | AlreadyCallbacked       \<comment> \<open>"Deferred has already been callbacked!"\<close>
  | FinallyExists           \<comment> \<open>"Finally function already exists"\<close>
  | NotADeferred nat        \<comment> \<open>"Parameter with index i passed to select() is not a deferred object."\<close>
  | TypeError               \<comment> \<open>a property read or a call on \<^verbatim>\<open>undefined\<close>, or a call of a non-function\<close>

datatype val =
    VUndef
  | VBool bool
  | VNum int
  | VStr string
  | VArr "val list"
  | VError jserror
  | VDeferred ref

text \<open>Javascript truthiness, as \<^verbatim>\<open>||\<close> and \<^verbatim>\<open>if\<close> read a value.\<close>

fun truthy :: "val \<Rightarrow> bool" where
  "truthy VUndef = False"
| "truthy (VBool b) = b"
| "truthy (VNum n) = (n \<noteq> 0)"
| "truthy (VStr s) = (s \<noteq> [])"
| "truthy (VArr xs) = True"
| "truthy (VError e) = True"
| "truthy (VDeferred r) = True"

text \<open>How a call ends: it returns a value, throws one, or the model ran out of fuel.\<close>

datatype completion = Returned val | Thrown val | OutOfFuel

datatype outcome = Return val | Throw val

fun completes :: "outcome \<Rightarrow> completion" where
  "completes (Return v) = Returned v"
| "completes (Throw e) = Thrown e"

text \<open>
  A user function is known by an identity and by what it does with its arguments: it
  returns a value or throws one. The closures of the library are named after the place
  that creates them; their fields are the variables they capture.
\<close>

datatype fn =
    User nat "val list \<Rightarrow> outcome"
  | SpliceThen ref nat ref   \<comment> \<open>lines 215-217: owner of \<^verbatim>\<open>nextLinks\<close>, persistentI, persistentDeferred\<close>
  | SpliceErr ref nat ref    \<comment> \<open>lines 218-223: owner, persistentI, persistentDeferred\<close>
  | WhenThen nat nat         \<comment> \<open>lines 523-531: the call of \<^verbatim>\<open>when\<close>, index\<close>
  | WhenErr nat              \<comment> \<open>lines 532-534: the call of \<^verbatim>\<open>when\<close>\<close>
  | SelectThen nat nat       \<comment> \<open>lines 570-583: the call of \<^verbatim>\<open>select\<close>, persistentI\<close>
  | SelectErr nat            \<comment> \<open>lines 584-590: the call of \<^verbatim>\<open>select\<close>\<close>
  | SelectId                 \<comment> \<open>line 596: \<^verbatim>\<open>function (args) {return args; }\<close>\<close>

text \<open>The variables of one Deferred (lines 74-109).\<close>

record node =
  root :: "ref option"
  branch :: "ref option"
  callbacked :: bool
  callbackArgs :: "val list"
  errbacked :: bool
  errbackError :: val
  aborted :: bool
  abortArgs :: "val list option"
  abortFunctions :: "fn list"
  nextLinks :: "ref list"
  callbackFunctions :: "fn list"
  errbackFunctions :: "fn list"
  progressFunctions :: "fn list"
  doneVar :: val
  outOfVar :: val
  partialResultFunctions :: "fn list"
  finallyFunction :: "fn option"

text \<open>The closures handed to \<^verbatim>\<open>setTimeout(..., 0)\<close>.\<close>

datatype task =
    TRunCallback ref         \<comment> \<open>lines 258-260: \<^verbatim>\<open>that.runCallback.apply(that, callbackArgs)\<close>\<close>
  | TRunErrback ref val      \<comment> \<open>lines 275-277: \<^verbatim>\<open>that.runErrback(e)\<close>\<close>
  | TAbortLast ref           \<comment> \<open>lines 324-326: \<^verbatim>\<open>nextLinks[nextLinks.length - 1].propagateAbort()\<close>\<close>
  | TThenErrback ref ref     \<comment> \<open>lines 335-337: \<^verbatim>\<open>next.runErrback(errbackError)\<close>, owner and next\<close>
  | TLateCallback ref fn     \<comment> \<open>lines 339-341: \<^verbatim>\<open>callbackFunction.apply(that, callbackArgs)\<close>\<close>
  | TOrIfErrorLate ref       \<comment> \<open>lines 355-364\<close>

text \<open>What an observer sees: calls of user functions, console output, uncaught errors.\<close>

datatype logmsg =
    LogErrorInErrback        \<comment> \<open>"error in errback, won't continue! ..."\<close>
  | LogNotHandled            \<comment> \<open>"error not handled in errback or in the rest of the chain! rethrowing..."\<close>
  | LogErrorInCallback       \<comment> \<open>"Error in callback Function: ..."\<close>
  | LogAlreadyErrbacked      \<comment> \<open>"Deferred is already errbacked, won't run errback!"\<close>
  | LogAbortedNoErrback      \<comment> \<open>"Deferred has been aborted, can't add errback!"\<close>
  | LogAlreadyAborted        \<comment> \<open>"Deferred has already been aborted, can't abort again!"\<close>
  | LogCallbackedNoAbort     \<comment> \<open>"Deferred has already been callbacked, can't abort after that!"\<close>
  | LogErrbackedNoAbort      \<comment> \<open>"Deferred has already been errbacked, can't abort after that!"\<close>
  | LogAbortedNoProgress     \<comment> \<open>"The deferred has been aborted, can't set progress!"\<close>
  | LogAbortedNoProgressFn   \<comment> \<open>"The deferred has been aborted, won't register progress function!"\<close>
  | LogAbortedNoPartial      \<comment> \<open>"The deferred has been aborted, won't call partial result!"\<close>
  | LogAbortedNoPartialFn    \<comment> \<open>"The deferred has been aborted, won't register partial result function!"\<close>

datatype event =
    Invoked nat "val list"   \<comment> \<open>the user function with this identity was called with these arguments\<close>
  | ConsoleLog logmsg
  | Uncaught val             \<comment> \<open>an exception left a task of the event loop\<close>

text \<open>The local variables of one call of \<^verbatim>\<open>when\<close> (lines 509-512) and of \<^verbatim>\<open>select\<close> (lines 555-560).\<close>

record whenFrame =
  wd :: ref
  returnValues :: "val list"
  wTotalDeferreds :: nat
  deferredsDone :: nat

record selectFrame =
  sd :: ref
  sdone :: bool
  sTotalDeferreds :: nat
  winner :: "val option"
  sargs :: "val list"
  errored :: bool

record state =
  nodes :: "ref \<Rightarrow> node"
  nxt :: ref
  queue :: "task list"
  trace :: "event list"
  defaultErrorHandler :: "fn option"
  whenFrames :: "nat \<Rightarrow> whenFrame"
  nxtWhen :: nat
  selectFrames :: "nat \<Rightarrow> selectFrame"
  nxtSelect :: nat

definition emptyNode :: node where
  "emptyNode = \<lparr> root = None, branch = None,
     callbacked = False, callbackArgs = [],
     errbacked = False, errbackError = VError ErrbackWithoutError,
     aborted = False, abortArgs = None, abortFunctions = [],
     nextLinks = [], callbackFunctions = [], errbackFunctions = [],
     progressFunctions = [], doneVar = VUndef, outOfVar = VUndef,
     partialResultFunctions = [], finallyFunction = None \<rparr>"

definition emptyWhenFrame :: whenFrame where
  "emptyWhenFrame = \<lparr> wd = 0, returnValues = [], wTotalDeferreds = 0, deferredsDone = 0 \<rparr>"

definition emptySelectFrame :: selectFrame where
  "emptySelectFrame = \<lparr> sd = 0, sdone = False, sTotalDeferreds = 0, winner = None,
     sargs = [], errored = False \<rparr>"

definition initState :: state where
  "initState = \<lparr> nodes = (\<lambda>_. emptyNode), nxt = 0, queue = [], trace = [],
     defaultErrorHandler = None,
     whenFrames = (\<lambda>_. emptyWhenFrame), nxtWhen = 0,
     selectFrames = (\<lambda>_. emptySelectFrame), nxtSelect = 0 \<rparr>"

definition updNode :: "ref \<Rightarrow> (node \<Rightarrow> node) \<Rightarrow> state \<Rightarrow> state" where
  "updNode r f s = s\<lparr>nodes := (nodes s)(r := f (nodes s r))\<rparr>"

definition setTimeout :: "task \<Rightarrow> state \<Rightarrow> state" where
  "setTimeout t s = s\<lparr>queue := queue s @ [t]\<rparr>"

definition consoleLog :: "logmsg \<Rightarrow> state \<Rightarrow> state" where
  "consoleLog m s = s\<lparr>trace := trace s @ [ConsoleLog m]\<rparr>"

text \<open>Reading \<^verbatim>\<open>xs[i]\<close>: \<^verbatim>\<open>undefined\<close> out of range.\<close>

definition lookup :: "'a list \<Rightarrow> nat \<Rightarrow> 'a option" where
  "lookup xs i = (if i < length xs then Some (xs ! i) else None)"

text \<open>The first actual argument of a call: \<^verbatim>\<open>undefined\<close> when there is none.\<close>

fun arg0 :: "val list \<Rightarrow> val" where
  "arg0 [] = VUndef"
| "arg0 (v # vs) = v"

fun arg1 :: "val list \<Rightarrow> val" where
  "arg1 (v # w # vs) = w"
| "arg1 vs = VUndef"

text \<open>Writing \<^verbatim>\<open>xs[i] = v\<close>: an array grows, with holes that read as \<^verbatim>\<open>undefined\<close>.\<close>

definition assignIdx :: "val list \<Rightarrow> nat \<Rightarrow> val \<Rightarrow> val list" where
  "assignIdx xs i v =
     (if i < length xs then xs[i := v] else xs @ replicate (i - length xs) VUndef @ [v])"

text \<open>
  The constructor (lines 74-109): \<^verbatim>\<open>new Deferred(root, branch)\<close>, where a missing root or
  branch is the new object itself.
\<close>

definition newDeferred :: "ref option \<Rightarrow> ref option \<Rightarrow> state \<Rightarrow> ref \<times> state" where
  "newDeferred rt br s =
     (nxt s,
      s\<lparr>nodes := (nodes s)(nxt s := emptyNode\<lparr>
            root := (case rt of None \<Rightarrow> Some (nxt s) | Some r \<Rightarrow> Some r),
            branch := (case br of None \<Rightarrow> Some (nxt s) | Some b \<Rightarrow> Some b)\<rparr>),
        nxt := Suc (nxt s)\<rparr>)"

text \<open>Sequencing: the value of a finished call is dropped, a throw or exhaustion passes on.\<close>

definition returning :: "val \<Rightarrow> completion \<times> state \<Rightarrow> completion \<times> state" where
  "returning v m = (case m of (Returned _, s) \<Rightarrow> (Returned v, s) | (c, s) \<Rightarrow> (c, s))"


section \<open>Branch pointers\<close>

text \<open>
  \<^verbatim>\<open>setBranch\<close> (lines 285-295) walks the subtree below a node. The walk follows the heap,
  so it takes fuel: one unit for each call and each turn of a loop.
\<close>

fun setBranch :: "nat \<Rightarrow> ref \<Rightarrow> ref \<Rightarrow> state \<Rightarrow> completion \<times> state"
and setBranchLoop :: "nat \<Rightarrow> ref \<Rightarrow> nat \<Rightarrow> state \<Rightarrow> completion \<times> state" where
  "setBranch 0 r newBranch s = (OutOfFuel, s)"
| "setBranch (Suc n) r newBranch s =
     (if length (nextLinks (nodes s r)) = 1
      then setBranch n (nextLinks (nodes s r) ! 0) newBranch
             (updNode r (\<lambda>d. d\<lparr>branch := Some newBranch\<rparr>) s)
      else setBranchLoop n r 0 (updNode r (\<lambda>d. d\<lparr>branch := Some newBranch\<rparr>) s))"
| "setBranchLoop 0 r i s = (OutOfFuel, s)"
| "setBranchLoop (Suc n) r i s =
     (if i < length (nextLinks (nodes s r))
      then (case setBranch n (nextLinks (nodes s r) ! i) (nextLinks (nodes s r) ! i) s of
              (Returned _, s1) \<Rightarrow> setBranchLoop n r (Suc i) s1
            | (c, s1) \<Rightarrow> (c, s1))
      else (Returned VUndef, s))"

text \<open>\<^verbatim>\<open>reArrangeBranch\<close> (lines 281-283): \<^verbatim>\<open>nextLinks[0].setBranch(nextLinks[0])\<close>.\<close>

definition reArrangeBranch :: "nat \<Rightarrow> ref \<Rightarrow> state \<Rightarrow> completion \<times> state" where
  "reArrangeBranch n r s =
     (case lookup (nextLinks (nodes s r)) 0 of
        None \<Rightarrow> (Thrown (VError TypeError), s)
      | Some c \<Rightarrow> setBranch n c c s)"

section \<open>Registration: then, orIfError\<close>

text \<open>
  Lines 311-321 of \<^verbatim>\<open>then\<close>: the new child is created and linked; when the node already
  has one callback and still has a branch pointer, the head of its branch rearranges.
\<close>

definition linkNext :: "nat \<Rightarrow> ref \<Rightarrow> state \<Rightarrow> completion \<times> state" where
  "linkNext n r s =
     (if length (callbackFunctions (nodes s r)) > 0
      then (case newDeferred (root (nodes s r)) None s of
              (nx, s1) \<Rightarrow>
                (case branch (nodes s r) of
                   Some b \<Rightarrow>
                     if length (callbackFunctions (nodes s r)) = 1
                     then returning (VDeferred nx)
                            (reArrangeBranch n b
                               (updNode r (\<lambda>d. d\<lparr>nextLinks := nextLinks d @ [nx]\<rparr>) s1))
                     else (Returned (VDeferred nx),
                           updNode r (\<lambda>d. d\<lparr>nextLinks := nextLinks d @ [nx]\<rparr>) s1)
                 | None \<Rightarrow>
                     (Returned (VDeferred nx),
                      updNode r (\<lambda>d. d\<lparr>nextLinks := nextLinks d @ [nx]\<rparr>) s1)))
      else (case newDeferred (root (nodes s r)) (branch (nodes s r)) s of
              (nx, s1) \<Rightarrow>
                (Returned (VDeferred nx),
                 updNode r (\<lambda>d. d\<lparr>nextLinks := nextLinks d @ [nx]\<rparr>) s1)))"

text \<open>
  \<^verbatim>\<open>then\<close> (lines 310-344). On an aborted node it returns the node itself, not the child.
\<close>

definition thenD :: "nat \<Rightarrow> ref \<Rightarrow> fn \<Rightarrow> state \<Rightarrow> completion \<times> state" where
  "thenD n r callbackFunction s =
     (case linkNext n r s of
        (Returned nx, s1) \<Rightarrow>
          (if aborted (nodes s1 r)
           then (Returned (VDeferred r),
                 setTimeout (TAbortLast r)
                   (updNode r (\<lambda>d. d\<lparr>callbackFunctions := callbackFunctions d @ [callbackFunction]\<rparr>) s1))
           else if errbacked (nodes s1 r)
           then (Returned nx,
                 setTimeout (TThenErrback r (case nx of VDeferred x \<Rightarrow> x | _ \<Rightarrow> r))
                   (updNode r (\<lambda>d. d\<lparr>callbackFunctions := callbackFunctions d @ [callbackFunction]\<rparr>) s1))
           else if callbacked (nodes s1 r)
           then (Returned nx,
                 setTimeout (TLateCallback r callbackFunction)
                   (updNode r (\<lambda>d. d\<lparr>callbackFunctions := callbackFunctions d @ [callbackFunction]\<rparr>) s1))
           else (Returned nx,
                 updNode r (\<lambda>d. d\<lparr>callbackFunctions := callbackFunctions d @ [callbackFunction]\<rparr>) s1))
      | (c, s1) \<Rightarrow> (c, s1))"

text \<open>
  \<^verbatim>\<open>orIfError\<close> (lines 346-367). The task it schedules on an errbacked node is
  \<^verbatim>\<open>TOrIfErrorLate\<close>.
\<close>

definition orIfError :: "ref \<Rightarrow> fn \<Rightarrow> state \<Rightarrow> completion \<times> state" where
  "orIfError r errbackFunction s =
     (if aborted (nodes s r)
      then (Returned (VDeferred r), consoleLog LogAbortedNoErrback s)
      else if errbacked (nodes s r)
      then (Returned (VDeferred r),
            setTimeout (TOrIfErrorLate r)
              (updNode r (\<lambda>d. d\<lparr>errbackFunctions := errbackFunctions d @ [errbackFunction]\<rparr>) s))
      else (Returned (VDeferred r),
            updNode r (\<lambda>d. d\<lparr>errbackFunctions := errbackFunctions d @ [errbackFunction]\<rparr>) s))"

section \<open>Resolution: callback, errback\<close>

text \<open>\<^verbatim>\<open>callback\<close> (lines 247-262) and \<^verbatim>\<open>errback\<close> (lines 264-279) only schedule.\<close>

definition callback :: "ref \<Rightarrow> val list \<Rightarrow> state \<Rightarrow> completion \<times> state" where
  "callback r args s =
     (if aborted (nodes s r) then (Returned (VDeferred r), s)
      else if errbacked (nodes s r) then (Returned (VDeferred r), s)
      else (Returned (VDeferred r),
            setTimeout (TRunCallback r) (updNode r (\<lambda>d. d\<lparr>callbackArgs := args\<rparr>) s)))"

definition errback :: "ref \<Rightarrow> val \<Rightarrow> state \<Rightarrow> completion \<times> state" where
  "errback r e s =
     (if aborted (nodes s r) then (Returned (VDeferred r), s)
      else if errbacked (nodes s r)
      then (Returned (VDeferred r), consoleLog LogAlreadyErrbacked s)
      else (Returned (VDeferred r), setTimeout (TRunErrback r e) s))"

section \<open>Propagation: runErrback, runCallback, propagateAbort\<close>

text \<open>
  Sequencing of calls that may throw: \<^verbatim>\<open>andThen\<close> runs the continuation after a
  return, \<^verbatim>\<open>tryCatch\<close> runs the handler after a throw. \<^verbatim>\<open>asDeferred\<close> is the test
  \<^verbatim>\<open>instanceof Deferred\<close>.
\<close>

definition andThen ::
  "completion \<times> state \<Rightarrow> (val \<Rightarrow> state \<Rightarrow> completion \<times> state) \<Rightarrow> completion \<times> state" where
  "andThen m k = (case m of (Returned v, s) \<Rightarrow> k v s | (Thrown e, s) \<Rightarrow> (Thrown e, s) | (OutOfFuel, s) \<Rightarrow> (OutOfFuel, s))"

definition tryCatch ::
  "completion \<times> state \<Rightarrow> (val \<Rightarrow> state \<Rightarrow> completion \<times> state) \<Rightarrow> completion \<times> state" where
  "tryCatch m h = (case m of (Returned v, s) \<Rightarrow> (Returned v, s) | (Thrown e, s) \<Rightarrow> h e s | (OutOfFuel, s) \<Rightarrow> (OutOfFuel, s))"

fun asDeferred :: "val \<Rightarrow> ref option" where
  "asDeferred (VDeferred r) = Some r"
| "asDeferred v = None"

text \<open>
  The methods that call registered functions and walk to the children call each other
  through the closures of the heap, so they are one function \<^verbatim>\<open>run\<close>, recursive on
  fuel, over the method invoked and its arguments: one unit of fuel for each call and each
  turn of a loop. Every loop reads its array and its bound from the heap at each turn, as
  the source does.

  \<^item> \<^verbatim>\<open>CallFn\<close>: the call of a function value.
  \<^item> \<^verbatim>\<open>ForEachFn\<close>: the loops of lines 372-374, 443-445 and 467-469, which call every
    function of one array of the node with the same arguments.
  \<^item> \<^verbatim>\<open>RunErrback\<close>: lines 119-128 and 142-165; \<^verbatim>\<open>ErrbackLoop\<close>: lines 132-140;
    \<^verbatim>\<open>ErrbackNextLoop\<close>: lines 147-149; \<^verbatim>\<open>FinishErrback\<close>: lines 167-176.
  \<^item> \<^verbatim>\<open>RunCallback\<close>: lines 179-192 and 236-237; \<^verbatim>\<open>CallbackLoop\<close>: lines 195-233;
    \<^verbatim>\<open>CallbackBody\<close>: the \<^verbatim>\<open>try\<close> block of lines 200-227.
  \<^item> \<^verbatim>\<open>PropagateAbort\<close>: lines 378-394; \<^verbatim>\<open>RunAbortFunctions\<close>: lines 369-376, which
    passes its own, empty, argument list on; \<^verbatim>\<open>AbortNextLoop\<close>: lines 387-389.
  \<^item> \<^verbatim>\<open>Abort\<close>: lines 396-411; \<^verbatim>\<open>Progress\<close>: lines 437-447, whose parameters
    \<^verbatim>\<open>done\<close> and \<^verbatim>\<open>outOf\<close> shadow the variables of the constructor, which it therefore
    never assigns; \<^verbatim>\<open>PartialResult\<close>: lines 461-470.
  \<^item> \<^verbatim>\<open>SelectAbortLoop\<close>: lines 578-582.
\<close>

datatype invocation =
    CallFn fn "val list"
  | ForEachFn "node \<Rightarrow> fn list" ref "val list" nat
  | RunErrback ref val "fn option"
  | ErrbackLoop ref val nat val
  | ErrbackNextLoop ref nat val
  | FinishErrback ref val
  | RunCallback ref "val list"
  | CallbackLoop ref "val list" nat
  | CallbackBody ref "val list" nat
  | PropagateAbort ref "val list"
  | RunAbortFunctions ref
  | AbortNextLoop ref nat
  | Abort ref "val list"
  | Progress ref val val
  | PartialResult ref val
  | SelectAbortLoop nat nat

primrec run :: "nat \<Rightarrow> invocation \<Rightarrow> state \<Rightarrow> completion \<times> state" where
  "run 0 m s = (OutOfFuel, s)"
| "run (Suc n) m s =
  (case m of
     CallFn f args \<Rightarrow>
       (case f of
          User i body \<Rightarrow> (completes (body args), s\<lparr>trace := trace s @ [Invoked i args]\<rparr>)
        | SpliceThen owner persistentI persistentDeferred \<Rightarrow>
            (case lookup (nextLinks (nodes s owner)) persistentI of
               None \<Rightarrow> (Thrown (VError TypeError), s)
             | Some c \<Rightarrow>
                 returning VUndef
                   (run n (RunCallback c (callbackArgs (nodes s persistentDeferred))) s))
        | SpliceErr owner persistentI persistentDeferred \<Rightarrow>
            (if length (errbackFunctions (nodes s persistentDeferred)) = 0
             then (case lookup (nextLinks (nodes s owner)) persistentI of
                     None \<Rightarrow> (Thrown (VError TypeError), s)
                   | Some c \<Rightarrow>
                       returning VUndef
                         (run n (RunErrback c (arg0 args)
                                   (lookup (callbackFunctions (nodes s owner)) persistentI)) s))
             else (Returned VUndef, s))
        | WhenThen w index \<Rightarrow>
            andThen
              (run n (PartialResult (wd (whenFrames s w))
                        (VArr (assignIdx (returnValues (whenFrames s w)) index (arg0 args))))
                 (s\<lparr>whenFrames := (whenFrames s)(w := (whenFrames s w)\<lparr>
                       returnValues := assignIdx (returnValues (whenFrames s w)) index (arg0 args),
                       deferredsDone := deferredsDone (whenFrames s w) + 1\<rparr>)\<rparr>))
              (\<lambda>_ s1.
                 andThen
                   (run n (Progress (wd (whenFrames s1 w))
                             (VNum (int (deferredsDone (whenFrames s1 w))))
                             (VNum (int (wTotalDeferreds (whenFrames s1 w))))) s1)
                   (\<lambda>_ s2.
                      if deferredsDone (whenFrames s2 w) = wTotalDeferreds (whenFrames s2 w)
                      then returning VUndef
                             (callback (wd (whenFrames s2 w)) (returnValues (whenFrames s2 w)) s2)
                      else (Returned VUndef, s2)))
        | WhenErr w \<Rightarrow>
            returning VUndef (run n (RunErrback (wd (whenFrames s w)) (arg0 args) None) s)
        | SelectThen q persistentI \<Rightarrow>
            (if sdone (selectFrames s q) then (Returned VUndef, s)
             else andThen
                    (callback (sd (selectFrames s q)) [arg0 args]
                       (s\<lparr>selectFrames := (selectFrames s)(q := (selectFrames s q)\<lparr>sdone := True\<rparr>)\<rparr>))
                    (\<lambda>_ s1.
                       run n (SelectAbortLoop q 0)
                         (s1\<lparr>selectFrames := (selectFrames s1)(q := (selectFrames s1 q)\<lparr>
                                winner := lookup (sargs (selectFrames s1 q)) persistentI\<rparr>)\<rparr>)))
        | SelectErr q \<Rightarrow>
            (if \<not> errored (selectFrames s q)
             then andThen (errback (sd (selectFrames s q)) (arg0 args) s)
                    (\<lambda>_ s1. (Returned VUndef,
                       s1\<lparr>selectFrames := (selectFrames s1)(q := (selectFrames s1 q)\<lparr>errored := True\<rparr>)\<rparr>))
             else (Returned VUndef,
                   s\<lparr>selectFrames := (selectFrames s)(q := (selectFrames s q)\<lparr>errored := True\<rparr>)\<rparr>))
        | SelectId \<Rightarrow> (Returned (arg0 args), s))

   | ForEachFn fns r args i \<Rightarrow>
       (if i < length (fns (nodes s r))
        then andThen (run n (CallFn (fns (nodes s r) ! i) args) s)
               (\<lambda>_ s1. run n (ForEachFn fns r args (Suc i)) s1)
        else (Returned VUndef, s))

   | RunErrback r e faultyFunction \<Rightarrow>
       (if errbacked (nodes s r) then (Returned (VDeferred r), s)
        else if aborted (nodes s r) then (Returned (VDeferred r), s)
        else
          andThen
            (run n (ErrbackLoop r e 0 (VBool False))
               (updNode r (\<lambda>d. d\<lparr>errbacked := True, errbackError := e\<rparr>) s))
            (\<lambda>errorHandled s1.
               if errorHandled = VBool False
               then andThen (run n (ErrbackNextLoop r 0 errorHandled) s1)
                      (\<lambda>errorHandled2 s2.
                         if errorHandled2 = VBool False
                         then (case defaultErrorHandler s2 of
                                 Some h \<Rightarrow>
                                   returning VUndef
                                     (run n (CallFn h [errbackError (nodes s2 r)]) s2)
                               | None \<Rightarrow>
                                   (if faultyFunction = None
                                    then (if e = VUndef then (Thrown (VError TypeError), s2)
                                          else (Thrown (errbackError (nodes s2 r)),
                                                consoleLog LogNotHandled s2))
                                    else (Thrown (errbackError (nodes s2 r)),
                                          consoleLog LogErrorInCallback s2)))
                         else run n (FinishErrback r errorHandled2) s2)
               else run n (FinishErrback r errorHandled) s1))

   | ErrbackLoop r e i errorHandled \<Rightarrow>
       (if i < length (errbackFunctions (nodes s r))
        then andThen
               (tryCatch (run n (CallFn (errbackFunctions (nodes s r) ! i) [e]) s)
                  (\<lambda>e2 s1.
                     if e2 = VUndef then (Thrown (VError TypeError), s1)
                     else (Thrown (VError ErrorInErrback), consoleLog LogErrorInErrback s1)))
               (\<lambda>_ s1. run n (ErrbackLoop r e (Suc i) (VBool True)) s1)
        else (Returned errorHandled, s))

   | ErrbackNextLoop r j errorHandled \<Rightarrow>
       (if j < length (nextLinks (nodes s r))
        then (if truthy errorHandled then run n (ErrbackNextLoop r (Suc j) errorHandled) s
              else andThen
                     (run n (RunErrback (nextLinks (nodes s r) ! j) (errbackError (nodes s r)) None) s)
                     (\<lambda>v s1. run n (ErrbackNextLoop r (Suc j) v) s1))
        else (Returned errorHandled, s))

   | FinishErrback r errorHandled \<Rightarrow>
       (case finallyFunction (nodes s r) of
          Some f \<Rightarrow>
            returning errorHandled
              (run n (CallFn f []) (updNode r (\<lambda>d. d\<lparr>root := None, branch := None\<rparr>) s))
        | None \<Rightarrow> (Returned errorHandled, updNode r (\<lambda>d. d\<lparr>root := None, branch := None\<rparr>) s))

   | RunCallback r args \<Rightarrow>
       (if callbacked (nodes s r) then (Thrown (VError AlreadyCallbacked), s)
        else if errbacked (nodes s r) then (Returned VUndef, s)
        else
          (case finallyFunction (nodes s r) of
             Some f \<Rightarrow>
               returning VUndef
                 (run n (CallFn f [])
                    (updNode r (\<lambda>d. d\<lparr>callbacked := True, callbackArgs := args\<rparr>) s))
           | None \<Rightarrow>
               andThen
                 (run n (CallbackLoop r args 0)
                    (updNode r (\<lambda>d. d\<lparr>callbacked := True, callbackArgs := args\<rparr>) s))
                 (\<lambda>_ s1. (Returned VUndef, updNode r (\<lambda>d. d\<lparr>root := None, branch := None\<rparr>) s1))))

   | CallbackLoop r args i \<Rightarrow>
       (if i < length (callbackFunctions (nodes s r))
        then (case lookup (nextLinks (nodes s r)) i of
                None \<Rightarrow> (Thrown (VError TypeError), s)
              | Some c \<Rightarrow>
                  if aborted (nodes s c) then run n (CallbackLoop r args (Suc i)) s
                  else andThen
                         (tryCatch (run n (CallbackBody r args i) s)
                            (\<lambda>e s1.
                               case lookup (nextLinks (nodes s1 r)) i of
                                 None \<Rightarrow> (Thrown (VError TypeError), s1)
                               | Some c1 \<Rightarrow>
                                   run n (RunErrback c1 e
                                            (lookup (callbackFunctions (nodes s1 r)) i)) s1))
                         (\<lambda>_ s2. run n (CallbackLoop r args (Suc i)) s2))
        else (Returned VUndef, s))

   | CallbackBody r args i \<Rightarrow>
       (case lookup (callbackFunctions (nodes s r)) i of
          None \<Rightarrow> (Thrown (VError TypeError), s)
        | Some f \<Rightarrow>
            andThen (run n (CallFn f args) s)
              (\<lambda>returnValueFromCallback s1.
                 case asDeferred returnValueFromCallback of
                   Some persistentDeferred \<Rightarrow>
                     andThen (thenD n persistentDeferred (SpliceThen r i persistentDeferred) s1)
                       (\<lambda>x s2.
                          case asDeferred x of
                            Some xr \<Rightarrow> orIfError xr (SpliceErr r i persistentDeferred) s2
                          | None \<Rightarrow> (Thrown (VError TypeError), s2))
                 | None \<Rightarrow>
                     (case lookup (nextLinks (nodes s1 r)) i of
                        None \<Rightarrow> (Thrown (VError TypeError), s1)
                      | Some c \<Rightarrow> run n (RunCallback c [returnValueFromCallback]) s1)))

   | PropagateAbort r args \<Rightarrow>
       (if aborted (nodes s r) then (Returned VUndef, s)
        else andThen
               (run n (RunAbortFunctions r)
                  (updNode r (\<lambda>d. d\<lparr>aborted := True, abortArgs := Some args\<rparr>) s))
               (\<lambda>_ s1.
                  andThen (run n (AbortNextLoop r 0) s1)
                    (\<lambda>_ s2.
                       (Returned VUndef, updNode r (\<lambda>d. d\<lparr>branch := None, root := None\<rparr>) s2))))

   | RunAbortFunctions r \<Rightarrow>
       (if \<not> callbacked (nodes s r) \<and> \<not> errbacked (nodes s r)
        then run n (ForEachFn abortFunctions r [] 0) s
        else (Returned VUndef, s))

   | AbortNextLoop r i \<Rightarrow>
       (if i < length (nextLinks (nodes s r))
        then andThen (run n (PropagateAbort (nextLinks (nodes s r) ! i) []) s)
               (\<lambda>_ s1. run n (AbortNextLoop r (Suc i)) s1)
        else (Returned VUndef, s))

   | Abort r args \<Rightarrow>
       (if aborted (nodes s r) then (Returned (VDeferred r), consoleLog LogAlreadyAborted s)
        else if callbacked (nodes s r) then (Returned (VDeferred r), consoleLog LogCallbackedNoAbort s)
        else if errbacked (nodes s r) then (Returned (VDeferred r), consoleLog LogErrbackedNoAbort s)
        else returning (VDeferred r) (run n (PropagateAbort r args) s))

   | Progress r dn oo \<Rightarrow>
       (if aborted (nodes s r) then (Returned (VDeferred r), consoleLog LogAbortedNoProgress s)
        else returning (VDeferred r) (run n (ForEachFn progressFunctions r [dn, oo] 0) s))

   | PartialResult r v \<Rightarrow>
       (if aborted (nodes s r) then (Returned (VDeferred r), consoleLog LogAbortedNoPartial s)
        else returning VUndef (run n (ForEachFn partialResultFunctions r [v] 0) s))

   | SelectAbortLoop q i2 \<Rightarrow>
       (if i2 < sTotalDeferreds (selectFrames s q)
        then (if lookup (sargs (selectFrames s q)) i2 \<noteq> winner (selectFrames s q)
              then (case Option.bind (lookup (sargs (selectFrames s q)) i2) asDeferred of
                      None \<Rightarrow> (Thrown (VError TypeError), s)
                    | Some a \<Rightarrow>
                        andThen (run n (Abort a []) s)
                          (\<lambda>_ s1. run n (SelectAbortLoop q (Suc i2)) s1))
              else run n (SelectAbortLoop q (Suc i2)) s)
        else (Returned VUndef, s)))"


text \<open>The methods by their names.\<close>

abbreviation callFn :: "nat \<Rightarrow> fn \<Rightarrow> val list \<Rightarrow> state \<Rightarrow> completion \<times> state" where
  "callFn n f args s \<equiv> run n (CallFn f args) s"

abbreviation runErrback :: "nat \<Rightarrow> ref \<Rightarrow> val \<Rightarrow> fn option \<Rightarrow> state \<Rightarrow> completion \<times> state" where
  "runErrback n r e faultyFunction s \<equiv> run n (RunErrback r e faultyFunction) s"

abbreviation runCallback :: "nat \<Rightarrow> ref \<Rightarrow> val list \<Rightarrow> state \<Rightarrow> completion \<times> state" where
  "runCallback n r args s \<equiv> run n (RunCallback r args) s"

abbreviation propagateAbort :: "nat \<Rightarrow> ref \<Rightarrow> val list \<Rightarrow> state \<Rightarrow> completion \<times> state" where
  "propagateAbort n r args s \<equiv> run n (PropagateAbort r args) s"

abbreviation abort :: "nat \<Rightarrow> ref \<Rightarrow> val list \<Rightarrow> state \<Rightarrow> completion \<times> state" where
  "abort n r args s \<equiv> run n (Abort r args) s"

abbreviation progress :: "nat \<Rightarrow> ref \<Rightarrow> val \<Rightarrow> val \<Rightarrow> state \<Rightarrow> completion \<times> state" where
  "progress n r dn oo s \<equiv> run n (Progress r dn oo) s"

abbreviation partialResult :: "nat \<Rightarrow> ref \<Rightarrow> val \<Rightarrow> state \<Rightarrow> completion \<times> state" where
  "partialResult n r v s \<equiv> run n (PartialResult r v) s"

section \<open>Listeners, the finally hook, scoped abort\<close>

text \<open>\<^verbatim>\<open>onAbort\<close> (lines 429-435).\<close>

definition onAbort :: "nat \<Rightarrow> ref \<Rightarrow> fn \<Rightarrow> state \<Rightarrow> completion \<times> state" where
  "onAbort n r abortFunction s =
     (if aborted (nodes s r)
      then returning (VDeferred r)
             (callFn n abortFunction (case abortArgs (nodes s r) of None \<Rightarrow> [] | Some a \<Rightarrow> a)
                (updNode r (\<lambda>d. d\<lparr>abortFunctions := abortFunctions d @ [abortFunction]\<rparr>) s))
      else (Returned (VDeferred r),
            updNode r (\<lambda>d. d\<lparr>abortFunctions := abortFunctions d @ [abortFunction]\<rparr>) s))"

text \<open>
  \<^verbatim>\<open>onProgress\<close> (lines 449-459). It reads the variables \<^verbatim>\<open>done\<close> and \<^verbatim>\<open>outOf\<close>
  of the constructor (lines 104-105).
\<close>

definition onProgress :: "nat \<Rightarrow> ref \<Rightarrow> fn \<Rightarrow> state \<Rightarrow> completion \<times> state" where
  "onProgress n r pf s =
     (if aborted (nodes s r)
      then (Returned (VDeferred r), consoleLog LogAbortedNoProgressFn s)
      else if doneVar (nodes s r) \<noteq> VUndef \<and> outOfVar (nodes s r) \<noteq> VUndef
      then returning (VDeferred r)
             (callFn n pf [doneVar (nodes s r), outOfVar (nodes s r)]
                (updNode r (\<lambda>d. d\<lparr>progressFunctions := progressFunctions d @ [pf]\<rparr>) s))
      else (Returned (VDeferred r),
            updNode r (\<lambda>d. d\<lparr>progressFunctions := progressFunctions d @ [pf]\<rparr>) s))"

text \<open>\<^verbatim>\<open>onPartialResult\<close> (lines 472-479).\<close>

definition onPartialResult :: "ref \<Rightarrow> fn \<Rightarrow> state \<Rightarrow> completion \<times> state" where
  "onPartialResult r prf s =
     (if aborted (nodes s r)
      then (Returned (VDeferred r), consoleLog LogAbortedNoPartialFn s)
      else (Returned (VDeferred r),
            updNode r (\<lambda>d. d\<lparr>partialResultFunctions := partialResultFunctions d @ [prf]\<rparr>) s))"

text \<open>\<^verbatim>\<open>andAtLast\<close> (lines 485-490); \<^verbatim>\<open>finally\<close> (lines 481-483) passes its arguments on to it.\<close>

definition andAtLast :: "ref \<Rightarrow> fn \<Rightarrow> state \<Rightarrow> completion \<times> state" where
  "andAtLast r finalFunction s =
     (case finallyFunction (nodes s r) of
        Some f \<Rightarrow> (Thrown (VError FinallyExists), s)
      | None \<Rightarrow> (Returned VUndef, updNode r (\<lambda>d. d\<lparr>finallyFunction := Some finalFunction\<rparr>) s))"

text \<open>\<^verbatim>\<open>abortBranch\<close> (lines 414-417) and \<^verbatim>\<open>abortAll\<close> (lines 420-427).\<close>

definition abortBranch :: "nat \<Rightarrow> ref \<Rightarrow> state \<Rightarrow> completion \<times> state" where
  "abortBranch n r s =
     (case branch (nodes s r) of
        None \<Rightarrow> (Thrown (VError TypeError), s)
      | Some b \<Rightarrow> returning (VDeferred r) (abort n b [] s))"

definition abortAll :: "nat \<Rightarrow> ref \<Rightarrow> state \<Rightarrow> completion \<times> state" where
  "abortAll n r s =
     (case root (nodes s r) of
        Some rt \<Rightarrow> returning (VDeferred r) (abort n rt [] s)
      | None \<Rightarrow> returning (VDeferred r) (abort n r [] s))"

text \<open>\<^verbatim>\<open>Deferred.registerDefaultErrorHandler\<close> (lines 495-497).\<close>

definition registerDefaultErrorHandler :: "fn \<Rightarrow> state \<Rightarrow> state" where
  "registerDefaultErrorHandler handler s = s\<lparr>defaultErrorHandler := Some handler\<rparr>"

section \<open>The combinators when and select\<close>

text \<open>
  The loop of \<^verbatim>\<open>when\<close> (lines 516-536) over the arguments from index \<^verbatim>\<open>i\<close> on, and
  \<^verbatim>\<open>when\<close> itself (lines 508-538). The fuel is that of \<^verbatim>\<open>then\<close>.
\<close>

fun whenLoop :: "nat \<Rightarrow> nat \<Rightarrow> val list \<Rightarrow> nat \<Rightarrow> state \<Rightarrow> completion \<times> state" where
  "whenLoop n w [] i s = (Returned VUndef, s)"
| "whenLoop n w (a # as) i s =
     (case asDeferred a of
        None \<Rightarrow> (Thrown (VError (NotADeferred i)), s)
      | Some r \<Rightarrow>
          andThen (thenD n r (WhenThen w i) s)
            (\<lambda>x s1.
               case asDeferred x of
                 None \<Rightarrow> (Thrown (VError TypeError), s1)
               | Some xr \<Rightarrow>
                   andThen (orIfError xr (WhenErr w) s1)
                     (\<lambda>_ s2. whenLoop n w as (Suc i) s2)))"

definition whenD :: "nat \<Rightarrow> val list \<Rightarrow> state \<Rightarrow> completion \<times> state" where
  "whenD n args s =
     (case newDeferred None None s of
        (d, s1) \<Rightarrow>
          andThen
            (whenLoop n (nxtWhen s1) args 0
               (s1\<lparr>whenFrames := (whenFrames s1)(nxtWhen s1 :=
                      \<lparr>wd = d, returnValues = [], wTotalDeferreds = length args, deferredsDone = 0\<rparr>),
                    nxtWhen := Suc (nxtWhen s1)\<rparr>))
            (\<lambda>_ s2. (Returned (VDeferred d), s2)))"

text \<open>The loop of \<^verbatim>\<open>select\<close> (lines 564-592), and \<^verbatim>\<open>select\<close> itself (lines 554-597).\<close>

fun selectLoop :: "nat \<Rightarrow> nat \<Rightarrow> val list \<Rightarrow> nat \<Rightarrow> state \<Rightarrow> completion \<times> state" where
  "selectLoop n q [] i s = (Returned VUndef, s)"
| "selectLoop n q (a # as) i s =
     (case asDeferred a of
        None \<Rightarrow> (Thrown (VError (NotADeferred i)), s)
      | Some r \<Rightarrow>
          andThen (thenD n r (SelectThen q i) s)
            (\<lambda>x s1.
               case asDeferred x of
                 None \<Rightarrow> (Thrown (VError TypeError), s1)
               | Some xr \<Rightarrow>
                   andThen (orIfError xr (SelectErr q) s1)
                     (\<lambda>_ s2. selectLoop n q as (Suc i) s2)))"

definition selectD :: "nat \<Rightarrow> val list \<Rightarrow> state \<Rightarrow> completion \<times> state" where
  "selectD n args s =
     (case newDeferred None None s of
        (d, s1) \<Rightarrow>
          andThen
            (selectLoop n (nxtSelect s1) args 0
               (s1\<lparr>selectFrames := (selectFrames s1)(nxtSelect s1 :=
                      \<lparr>sd = d, sdone = False, sTotalDeferreds = length args, winner = None,
                       sargs = args, errored = False\<rparr>),
                    nxtSelect := Suc (nxtSelect s1)\<rparr>))
            (\<lambda>_ s2. thenD n d SelectId s2))"

section \<open>The event loop\<close>

text \<open>What each closure handed to \<^verbatim>\<open>setTimeout\<close> does when the host runs it.\<close>

definition runTask :: "nat \<Rightarrow> task \<Rightarrow> state \<Rightarrow> completion \<times> state" where
  "runTask n t s =
     (case t of
        TRunCallback r \<Rightarrow> runCallback n r (callbackArgs (nodes s r)) s
      | TRunErrback r e \<Rightarrow> runErrback n r e None s
      | TAbortLast r \<Rightarrow>
          (case lookup (nextLinks (nodes s r)) (length (nextLinks (nodes s r)) - 1) of
             None \<Rightarrow> (Thrown (VError TypeError), s)
           | Some c \<Rightarrow> propagateAbort n c [] s)
      | TThenErrback r nx \<Rightarrow> runErrback n nx (errbackError (nodes s r)) None s
      | TLateCallback r f \<Rightarrow> callFn n f (callbackArgs (nodes s r)) s
      | TOrIfErrorLate r \<Rightarrow>
          (if aborted (nodes s r) then (Returned VUndef, s)
           else (Returned VUndef, consoleLog LogErrorInErrback s)))"

text \<open>
  The host takes the oldest task and runs it to its end; an exception that leaves the
  task is reported and the loop goes on. \<^verbatim>\<open>eventLoop\<close> runs tasks until none is left.
\<close>

definition step :: "nat \<Rightarrow> state \<Rightarrow> state option" where
  "step n s =
     (case queue s of
        [] \<Rightarrow> Some s
      | t # ts \<Rightarrow>
          (case runTask n t (s\<lparr>queue := ts\<rparr>) of
             (Returned _, s1) \<Rightarrow> Some s1
           | (Thrown e, s1) \<Rightarrow> Some (s1\<lparr>trace := trace s1 @ [Uncaught e]\<rparr>)
           | (OutOfFuel, s1) \<Rightarrow> None))"

fun eventLoop :: "nat \<Rightarrow> state \<Rightarrow> state option" where
  "eventLoop 0 s = None"
| "eventLoop (Suc n) s =
     (if queue s = [] then Some s
      else (case step n s of None \<Rightarrow> None | Some s1 \<Rightarrow> eventLoop n s1))"

section \<open>Programs against the library\<close>

text \<open>
  A client program is a sequence of top-level statements: calls of the library, and
  points where control goes back to the host, which then runs every pending task. An
  exception that leaves a statement is reported as uncaught, and the next statement
  runs. References are addresses: the first object constructed is 0, the next 1, and
  so on, in the order of construction.
\<close>

datatype stmt =
    New                          \<comment> \<open>\<^verbatim>\<open>new Deferred()\<close>\<close>
  | Then ref fn
  | OrIfError ref fn
  | OnAbort ref fn
  | OnProgress ref fn
  | OnPartialResult ref fn
  | AndAtLast ref fn
  | Callback ref "val list"
  | Errback ref val
  | AbortIt ref "val list"
  | AbortBranch ref
  | ProgressIt ref val val
  | PartialResultIt ref val
  | WhenAll "val list"
  | SelectFirst "val list"
  | RegisterDefaultErrorHandler fn
  | Yield                        \<comment> \<open>back to the host, until no task is pending\<close>

definition perform :: "nat \<Rightarrow> stmt \<Rightarrow> state \<Rightarrow> completion \<times> state" where
  "perform n c s =
     (case c of
        New \<Rightarrow> (case newDeferred None None s of (d, s1) \<Rightarrow> (Returned (VDeferred d), s1))
      | Then r f \<Rightarrow> thenD n r f s
      | OrIfError r f \<Rightarrow> orIfError r f s
      | OnAbort r f \<Rightarrow> onAbort n r f s
      | OnProgress r f \<Rightarrow> onProgress n r f s
      | OnPartialResult r f \<Rightarrow> onPartialResult r f s
      | AndAtLast r f \<Rightarrow> andAtLast r f s
      | Callback r args \<Rightarrow> callback r args s
      | Errback r e \<Rightarrow> errback r e s
      | AbortIt r args \<Rightarrow> abort n r args s
      | AbortBranch r \<Rightarrow> abortBranch n r s
      | ProgressIt r dn oo \<Rightarrow> progress n r dn oo s
      | PartialResultIt r v \<Rightarrow> partialResult n r v s
      | WhenAll args \<Rightarrow> whenD n args s
      | SelectFirst args \<Rightarrow> selectD n args s
      | RegisterDefaultErrorHandler h \<Rightarrow> (Returned VUndef, registerDefaultErrorHandler h s)
      | Yield \<Rightarrow>
          (case eventLoop n s of
             None \<Rightarrow> (OutOfFuel, s)
           | Some s1 \<Rightarrow> (Returned VUndef, s1)))"

fun program :: "nat \<Rightarrow> stmt list \<Rightarrow> state \<Rightarrow> state option" where
  "program n [] s = Some s"
| "program n (c # cs) s =
     (case perform n c s of
        (Returned _, s1) \<Rightarrow> program n cs s1
      | (Thrown e, s1) \<Rightarrow> program n cs (s1\<lparr>trace := trace s1 @ [Uncaught e]\<rparr>)
      | (OutOfFuel, s1) \<Rightarrow> None)"

text \<open>User functions that ignore their arguments.\<close>

definition returns :: "nat \<Rightarrow> val \<Rightarrow> fn" where
  "returns i v = User i (\<lambda>args. Return v)"


section \<open>States and predicates used in the statements\<close>

text \<open>
  What \<^verbatim>\<open>callback\<close> does to the state of a node that is neither aborted nor errbacked:
  it records the arguments and schedules \<^verbatim>\<open>runCallback\<close>.
\<close>

definition mark :: "ref \<Rightarrow> val list \<Rightarrow> state \<Rightarrow> state" where
  "mark d a s = setTimeout (TRunCallback d) (updNode d (\<lambda>x. x\<lparr>callbackArgs := a\<rparr>) s)"

text \<open>
  A node with one callback (function 1) and a finally hook (function 2):
  \<^verbatim>\<open>d = new Deferred(); d.then(f1); d.andAtLast(f2)\<close>.
\<close>

definition finallyExample :: state where
  "finallyExample =
     snd (andAtLast 0 (returns 2 VUndef)
       (snd (thenD 5 0 (returns 1 (VNum 5)) (snd (newDeferred None None initState)))))"






definition sameLinks :: "state \<Rightarrow> state \<Rightarrow> bool" where
  "sameLinks s s' = (nxt s' = nxt s \<and> (\<forall>x. nextLinks (nodes s' x) = nextLinks (nodes s x)))"



fun callEvent :: "fn \<Rightarrow> val list \<Rightarrow> event list" where
  "callEvent (User i body) args = [Invoked i args]"
| "callEvent f args = []"





section \<open>States of the combinators\<close>


definition hookNode :: "ref \<Rightarrow> node \<Rightarrow> fn \<Rightarrow> node" where
  "hookNode x d ef = emptyNode\<lparr>
      root := (case root d of None \<Rightarrow> Some x | Some r \<Rightarrow> Some r),
      branch := (case branch d of None \<Rightarrow> Some x | Some b \<Rightarrow> Some b),
      errbackFunctions := [ef]\<rparr>"

definition regStep :: "ref \<Rightarrow> fn \<Rightarrow> fn \<Rightarrow> state \<Rightarrow> state" where
  "regStep a tf ef s =
     s\<lparr>nodes := (nodes s)(nxt s := hookNode (nxt s) (nodes s a) ef,
                           a := (nodes s a)\<lparr>nextLinks := [nxt s], callbackFunctions := [tf]\<rparr>),
       nxt := Suc (nxt s)\<rparr>"

fun regAll :: "(nat \<Rightarrow> fn) \<Rightarrow> fn \<Rightarrow> ref list \<Rightarrow> nat \<Rightarrow> state \<Rightarrow> state" where
  "regAll tf ef [] i s = s"
| "regAll tf ef (a # as) i s = regAll tf ef as (Suc i) (regStep a (tf i) ef s)"




















section \<open>Traces and plain callbacks\<close>

text \<open>
  A run only appends to the trace: \<^verbatim>\<open>extends tr s\<close> says that the trace of \<^verbatim>\<open>s\<close> starts with
  \<^verbatim>\<open>tr\<close>. A callback is plain on given arguments when it is a user function that returns a
  value that is not a Deferred; a node is a leaf when it is pending and has neither
  callbacks nor a finally hook. \<^verbatim>\<open>plainStep\<close> is the effect of one turn of the loop of
  \<^verbatim>\<open>runCallback\<close> (lines 194-233) for a plain callback whose child is a leaf.
\<close>

definition extends :: "event list \<Rightarrow> state \<Rightarrow> bool" where
  "extends tr s = (\<exists>r. trace s = tr @ r)"

definition leaf :: "state \<Rightarrow> ref \<Rightarrow> bool" where
  "leaf s c = (\<not> callbacked (nodes s c) \<and> \<not> errbacked (nodes s c) \<and> \<not> aborted (nodes s c) \<and>
     callbackFunctions (nodes s c) = [] \<and> finallyFunction (nodes s c) = None)"

fun returnsPlain :: "val list \<Rightarrow> fn \<Rightarrow> bool" where
  "returnsPlain args (User i body) =
     (case body args of Return v \<Rightarrow> asDeferred v = None | Throw e \<Rightarrow> False)"
| "returnsPlain args f = False"

fun resultOf :: "val list \<Rightarrow> fn \<Rightarrow> val" where
  "resultOf args (User i body) = (case body args of Return v \<Rightarrow> v | Throw e \<Rightarrow> e)"
| "resultOf args f = VUndef"

definition plainStep :: "val list \<Rightarrow> ref \<times> fn \<Rightarrow> state \<Rightarrow> state" where
  "plainStep args cf s =
     updNode (fst cf) (\<lambda>d. d\<lparr>root := None, branch := None\<rparr>)
       (updNode (fst cf) (\<lambda>d. d\<lparr>callbacked := True, callbackArgs := [resultOf args (snd cf)]\<rparr>)
          (s\<lparr>trace := trace s @ callEvent (snd cf) args\<rparr>))"

definition nobranch :: "node \<Rightarrow> node" where
  "nobranch d = d\<lparr>branch := None\<rparr>"

section \<open>Unfolding the definitions on concrete programs\<close>



text \<open>
  One step of each method, for proofs about states that are not concrete. The equation
  of \<^verbatim>\<open>run\<close> itself is taken out of the simplifier's rules, and named where needed.
\<close>

lemma run_CallFn_User:
  "run (Suc n) (CallFn (User i body) args) s =
     (completes (body args), s\<lparr>trace := trace s @ [Invoked i args]\<rparr>)"
  by simp

lemma run_ForEachFn:
  "run (Suc n) (ForEachFn fns r args i) s =
     (if i < length (fns (nodes s r))
      then andThen (run n (CallFn (fns (nodes s r) ! i) args) s)
             (\<lambda>_ s1. run n (ForEachFn fns r args (Suc i)) s1)
      else (Returned VUndef, s))"
  by simp

lemma run_ErrbackLoop:
  "run (Suc n) (ErrbackLoop r e i errorHandled) s =
     (if i < length (errbackFunctions (nodes s r))
      then andThen
             (tryCatch (run n (CallFn (errbackFunctions (nodes s r) ! i) [e]) s)
                (\<lambda>e2 s1.
                   if e2 = VUndef then (Thrown (VError TypeError), s1)
                   else (Thrown (VError ErrorInErrback), consoleLog LogErrorInErrback s1)))
             (\<lambda>_ s1. run n (ErrbackLoop r e (Suc i) (VBool True)) s1)
      else (Returned errorHandled, s))"
  by simp

lemma run_FinishErrback:
  "run (Suc n) (FinishErrback r errorHandled) s =
     (case finallyFunction (nodes s r) of
        Some f \<Rightarrow>
          returning errorHandled
            (run n (CallFn f []) (updNode r (\<lambda>d. d\<lparr>root := None, branch := None\<rparr>) s))
      | None \<Rightarrow> (Returned errorHandled, updNode r (\<lambda>d. d\<lparr>root := None, branch := None\<rparr>) s))"
  by simp

lemma run_RunErrback:
  "run (Suc n) (RunErrback r e faultyFunction) s =
     (if errbacked (nodes s r) then (Returned (VDeferred r), s)
      else if aborted (nodes s r) then (Returned (VDeferred r), s)
      else
        andThen
          (run n (ErrbackLoop r e 0 (VBool False))
             (updNode r (\<lambda>d. d\<lparr>errbacked := True, errbackError := e\<rparr>) s))
          (\<lambda>errorHandled s1.
             if errorHandled = VBool False
             then andThen (run n (ErrbackNextLoop r 0 errorHandled) s1)
                    (\<lambda>errorHandled2 s2.
                       if errorHandled2 = VBool False
                       then (case defaultErrorHandler s2 of
                               Some h \<Rightarrow>
                                 returning VUndef
                                   (run n (CallFn h [errbackError (nodes s2 r)]) s2)
                             | None \<Rightarrow>
                                 (if faultyFunction = None
                                  then (if e = VUndef then (Thrown (VError TypeError), s2)
                                        else (Thrown (errbackError (nodes s2 r)),
                                              consoleLog LogNotHandled s2))
                                  else (Thrown (errbackError (nodes s2 r)),
                                        consoleLog LogErrorInCallback s2)))
                       else run n (FinishErrback r errorHandled2) s2)
             else run n (FinishErrback r errorHandled) s1))"
  by simp

lemma run_ErrbackNextLoop:
  "run (Suc n) (ErrbackNextLoop r j errorHandled) s =
       (if j < length (nextLinks (nodes s r))
        then (if truthy errorHandled then run n (ErrbackNextLoop r (Suc j) errorHandled) s
              else andThen
                     (run n (RunErrback (nextLinks (nodes s r) ! j) (errbackError (nodes s r)) None) s)
                     (\<lambda>v s1. run n (ErrbackNextLoop r (Suc j) v) s1))
        else (Returned errorHandled, s))"
  by simp

lemma run_RunCallback:
  "run (Suc n) (RunCallback r args) s =
       (if callbacked (nodes s r) then (Thrown (VError AlreadyCallbacked), s)
        else if errbacked (nodes s r) then (Returned VUndef, s)
        else
          (case finallyFunction (nodes s r) of
             Some f \<Rightarrow>
               returning VUndef
                 (run n (CallFn f [])
                    (updNode r (\<lambda>d. d\<lparr>callbacked := True, callbackArgs := args\<rparr>) s))
           | None \<Rightarrow>
               andThen
                 (run n (CallbackLoop r args 0)
                    (updNode r (\<lambda>d. d\<lparr>callbacked := True, callbackArgs := args\<rparr>) s))
                 (\<lambda>_ s1. (Returned VUndef, updNode r (\<lambda>d. d\<lparr>root := None, branch := None\<rparr>) s1))))"
  by simp

lemma run_CallbackLoop:
  "run (Suc n) (CallbackLoop r args i) s =
       (if i < length (callbackFunctions (nodes s r))
        then (case lookup (nextLinks (nodes s r)) i of
                None \<Rightarrow> (Thrown (VError TypeError), s)
              | Some c \<Rightarrow>
                  if aborted (nodes s c) then run n (CallbackLoop r args (Suc i)) s
                  else andThen
                         (tryCatch (run n (CallbackBody r args i) s)
                            (\<lambda>e s1.
                               case lookup (nextLinks (nodes s1 r)) i of
                                 None \<Rightarrow> (Thrown (VError TypeError), s1)
                               | Some c1 \<Rightarrow>
                                   run n (RunErrback c1 e
                                            (lookup (callbackFunctions (nodes s1 r)) i)) s1))
                         (\<lambda>_ s2. run n (CallbackLoop r args (Suc i)) s2))
        else (Returned VUndef, s))"
  by simp

lemma run_CallbackBody:
  "run (Suc n) (CallbackBody r args i) s =
       (case lookup (callbackFunctions (nodes s r)) i of
          None \<Rightarrow> (Thrown (VError TypeError), s)
        | Some f \<Rightarrow>
            andThen (run n (CallFn f args) s)
              (\<lambda>returnValueFromCallback s1.
                 case asDeferred returnValueFromCallback of
                   Some persistentDeferred \<Rightarrow>
                     andThen (thenD n persistentDeferred (SpliceThen r i persistentDeferred) s1)
                       (\<lambda>x s2.
                          case asDeferred x of
                            Some xr \<Rightarrow> orIfError xr (SpliceErr r i persistentDeferred) s2
                          | None \<Rightarrow> (Thrown (VError TypeError), s2))
                 | None \<Rightarrow>
                     (case lookup (nextLinks (nodes s1 r)) i of
                        None \<Rightarrow> (Thrown (VError TypeError), s1)
                      | Some c \<Rightarrow> run n (RunCallback c [returnValueFromCallback]) s1)))"
  by simp

lemma run_PropagateAbort:
  "run (Suc n) (PropagateAbort r args) s =
       (if aborted (nodes s r) then (Returned VUndef, s)
        else andThen
               (run n (RunAbortFunctions r)
                  (updNode r (\<lambda>d. d\<lparr>aborted := True, abortArgs := Some args\<rparr>) s))
               (\<lambda>_ s1.
                  andThen (run n (AbortNextLoop r 0) s1)
                    (\<lambda>_ s2.
                       (Returned VUndef, updNode r (\<lambda>d. d\<lparr>branch := None, root := None\<rparr>) s2))))"
  by simp

lemma run_RunAbortFunctions:
  "run (Suc n) (RunAbortFunctions r) s =
       (if \<not> callbacked (nodes s r) \<and> \<not> errbacked (nodes s r)
        then run n (ForEachFn abortFunctions r [] 0) s
        else (Returned VUndef, s))"
  by simp

lemma run_AbortNextLoop:
  "run (Suc n) (AbortNextLoop r i) s =
       (if i < length (nextLinks (nodes s r))
        then andThen (run n (PropagateAbort (nextLinks (nodes s r) ! i) []) s)
               (\<lambda>_ s1. run n (AbortNextLoop r (Suc i)) s1)
        else (Returned VUndef, s))"
  by simp

lemma run_Abort:
  "run (Suc n) (Abort r args) s =
       (if aborted (nodes s r) then (Returned (VDeferred r), consoleLog LogAlreadyAborted s)
        else if callbacked (nodes s r) then (Returned (VDeferred r), consoleLog LogCallbackedNoAbort s)
        else if errbacked (nodes s r) then (Returned (VDeferred r), consoleLog LogErrbackedNoAbort s)
        else returning (VDeferred r) (run n (PropagateAbort r args) s))"
  by simp

lemma run_Progress:
  "run (Suc n) (Progress r dn oo) s =
       (if aborted (nodes s r) then (Returned (VDeferred r), consoleLog LogAbortedNoProgress s)
        else returning (VDeferred r) (run n (ForEachFn progressFunctions r [dn, oo] 0) s))"
  by simp

lemma run_PartialResult:
  "run (Suc n) (PartialResult r v) s =
       (if aborted (nodes s r) then (Returned (VDeferred r), consoleLog LogAbortedNoPartial s)
        else returning VUndef (run n (ForEachFn partialResultFunctions r [v] 0) s))"
  by simp

lemma run_SelectAbortLoop:
  "run (Suc n) (SelectAbortLoop q i2) s =
       (if i2 < sTotalDeferreds (selectFrames s q)
        then (if lookup (sargs (selectFrames s q)) i2 \<noteq> winner (selectFrames s q)
              then (case Option.bind (lookup (sargs (selectFrames s q)) i2) asDeferred of
                      None \<Rightarrow> (Thrown (VError TypeError), s)
                    | Some a \<Rightarrow>
                        andThen (run n (Abort a []) s)
                          (\<lambda>_ s1. run n (SelectAbortLoop q (Suc i2)) s1))
              else run n (SelectAbortLoop q (Suc i2)) s)
        else (Returned VUndef, s))"
  by simp

lemma run_CallFn_SpliceThen:
  "run (Suc n) (CallFn (SpliceThen owner persistentI persistentDeferred) args) s =
            (case lookup (nextLinks (nodes s owner)) persistentI of
               None \<Rightarrow> (Thrown (VError TypeError), s)
             | Some c \<Rightarrow>
                 returning VUndef
                   (run n (RunCallback c (callbackArgs (nodes s persistentDeferred))) s))"
  by simp

lemma run_CallFn_SpliceErr:
  "run (Suc n) (CallFn (SpliceErr owner persistentI persistentDeferred) args) s =
            (if length (errbackFunctions (nodes s persistentDeferred)) = 0
             then (case lookup (nextLinks (nodes s owner)) persistentI of
                     None \<Rightarrow> (Thrown (VError TypeError), s)
                   | Some c \<Rightarrow>
                       returning VUndef
                         (run n (RunErrback c (arg0 args)
                                   (lookup (callbackFunctions (nodes s owner)) persistentI)) s))
             else (Returned VUndef, s))"
  by simp

lemma run_CallFn_WhenThen:
  "run (Suc n) (CallFn (WhenThen w index) args) s =
            andThen
              (run n (PartialResult (wd (whenFrames s w))
                        (VArr (assignIdx (returnValues (whenFrames s w)) index (arg0 args))))
                 (s\<lparr>whenFrames := (whenFrames s)(w := (whenFrames s w)\<lparr>
                       returnValues := assignIdx (returnValues (whenFrames s w)) index (arg0 args),
                       deferredsDone := deferredsDone (whenFrames s w) + 1\<rparr>)\<rparr>))
              (\<lambda>_ s1.
                 andThen
                   (run n (Progress (wd (whenFrames s1 w))
                             (VNum (int (deferredsDone (whenFrames s1 w))))
                             (VNum (int (wTotalDeferreds (whenFrames s1 w))))) s1)
                   (\<lambda>_ s2.
                      if deferredsDone (whenFrames s2 w) = wTotalDeferreds (whenFrames s2 w)
                      then returning VUndef
                             (callback (wd (whenFrames s2 w)) (returnValues (whenFrames s2 w)) s2)
                      else (Returned VUndef, s2)))"
  by simp

lemma run_CallFn_WhenErr:
  "run (Suc n) (CallFn (WhenErr w) args) s =
            returning VUndef (run n (RunErrback (wd (whenFrames s w)) (arg0 args) None) s)"
  by simp

lemma run_CallFn_SelectThen:
  "run (Suc n) (CallFn (SelectThen q persistentI) args) s =
            (if sdone (selectFrames s q) then (Returned VUndef, s)
             else andThen
                    (callback (sd (selectFrames s q)) [arg0 args]
                       (s\<lparr>selectFrames := (selectFrames s)(q := (selectFrames s q)\<lparr>sdone := True\<rparr>)\<rparr>))
                    (\<lambda>_ s1.
                       run n (SelectAbortLoop q 0)
                         (s1\<lparr>selectFrames := (selectFrames s1)(q := (selectFrames s1 q)\<lparr>
                                winner := lookup (sargs (selectFrames s1 q)) persistentI\<rparr>)\<rparr>)))"
  by simp

lemma run_CallFn_SelectErr:
  "run (Suc n) (CallFn (SelectErr q) args) s =
            (if \<not> errored (selectFrames s q)
             then andThen (errback (sd (selectFrames s q)) (arg0 args) s)
                    (\<lambda>_ s1. (Returned VUndef,
                       s1\<lparr>selectFrames := (selectFrames s1)(q := (selectFrames s1 q)\<lparr>errored := True\<rparr>)\<rparr>))
             else (Returned VUndef,
                   s\<lparr>selectFrames := (selectFrames s)(q := (selectFrames s q)\<lparr>errored := True\<rparr>)\<rparr>))"
  by simp

lemma run_CallFn_SelectId:
  "run (Suc n) (CallFn (SelectId) args) s =
     (Returned (arg0 args), s)"
  by simp

lemma run_zero: "run 0 m s = (OutOfFuel, s)"
  by simp

declare run.simps [simp del]

lemma snd_returning: "snd (returning v m) = snd m"
  by (cases m; cases "fst m") (auto simp: returning_def)

section \<open>The branch walk changes branch pointers only\<close>




section \<open>Registration commutes with scheduling a resolution\<close>

lemma mark_nodes [simp]:
  "nextLinks (nodes (mark d a s) r) = nextLinks (nodes s r)"
  "branch (nodes (mark d a s) r) = branch (nodes s r)"
  "root (nodes (mark d a s) r) = root (nodes s r)"
  "callbackFunctions (nodes (mark d a s) r) = callbackFunctions (nodes s r)"
  "aborted (nodes (mark d a s) r) = aborted (nodes s r)"
  "errbacked (nodes (mark d a s) r) = errbacked (nodes s r)"
  "callbacked (nodes (mark d a s) r) = callbacked (nodes s r)"
  "nxt (mark d a s) = nxt s"
  by (simp_all add: mark_def setTimeout_def updNode_def)







section \<open>The branch walk in a well-formed heap\<close>

lemma sameLinks_refl [simp]: "sameLinks s s" by (simp add: sameLinks_def)






lemma sameLinks_updBranch [simp]: "sameLinks s (updNode r (\<lambda>d. d\<lparr>branch := b\<rparr>) s)"
  by (simp add: sameLinks_def updNode_def)












section \<open>An error at a node with local user handlers\<close>




section \<open>The combinators on fresh inputs\<close>





lemma regAll_fields [simp]:
  "nxt (regAll tf ef ds i s) = nxt s + length ds"
  "queue (regAll tf ef ds i s) = queue s"
  "trace (regAll tf ef ds i s) = trace s"
  "defaultErrorHandler (regAll tf ef ds i s) = defaultErrorHandler s"
  "whenFrames (regAll tf ef ds i s) = whenFrames s"
  "selectFrames (regAll tf ef ds i s) = selectFrames s"
  "nxtWhen (regAll tf ef ds i s) = nxtWhen s"
  "nxtSelect (regAll tf ef ds i s) = nxtSelect s"
  by (induction ds arbitrary: i s) (simp_all add: regStep_def)















lemma updNode_fields [simp]:
  "queue (updNode r f s) = queue s" "trace (updNode r f s) = trace s"
  "selectFrames (updNode r f s) = selectFrames s" "whenFrames (updNode r f s) = whenFrames s"
  "nxt (updNode r f s) = nxt s" "defaultErrorHandler (updNode r f s) = defaultErrorHandler s"
  by (simp_all add: updNode_def)

lemma leaf_runCallback:
  assumes "\<not> callbacked (nodes s x)" "\<not> errbacked (nodes s x)" "finallyFunction (nodes s x) = None"
    "callbackFunctions (nodes s x) = []"
  shows "runCallback (Suc (Suc n)) x args s =
     (Returned VUndef, updNode x (\<lambda>d. d\<lparr>root := None, branch := None\<rparr>)
                         (updNode x (\<lambda>d. d\<lparr>callbacked := True, callbackArgs := args\<rparr>) s))"
  using assms by (simp add: run_RunCallback run_CallbackLoop andThen_def updNode_def)




section \<open>The inputs of when\<close>

























section \<open>Every run only appends to the trace\<close>

lemma extends_refl: "extends (trace s) s" by (simp add: extends_def)

lemma extends_trace: "trace s' = trace s \<Longrightarrow> extends tr s' = extends tr s"
  by (simp add: extends_def)

lemma extends_append: "trace s' = trace s @ r \<Longrightarrow> extends tr s \<Longrightarrow> extends tr s'"
  by (auto simp add: extends_def)

lemma extends_simps [simp]:
  "extends tr (updNode r f s) = extends tr s"
  "extends tr (setTimeout t s) = extends tr s"
  "extends tr (s\<lparr>nodes := nd\<rparr>) = extends tr s"
  "extends tr (s\<lparr>queue := qu\<rparr>) = extends tr s"
  "extends tr (s\<lparr>nxt := nx\<rparr>) = extends tr s"
  "extends tr (s\<lparr>whenFrames := wfr\<rparr>) = extends tr s"
  "extends tr (s\<lparr>selectFrames := sfr\<rparr>) = extends tr s"
  by (simp_all add: extends_def updNode_def setTimeout_def)

lemma extends_log [simp]:
  "extends tr s \<Longrightarrow> extends tr (consoleLog m s)"
  "extends tr s \<Longrightarrow> extends tr (s\<lparr>trace := trace s @ r\<rparr>)"
  by (auto simp add: extends_def consoleLog_def)

lemma ext_andThen:
  "extends tr (snd m) \<Longrightarrow> (\<And>v s1. extends tr s1 \<Longrightarrow> extends tr (snd (k v s1))) \<Longrightarrow>
   extends tr (snd (andThen m k))"
  by (cases m; cases "fst m") (auto simp: andThen_def)

lemma ext_tryCatch:
  "extends tr (snd m) \<Longrightarrow> (\<And>v s1. extends tr s1 \<Longrightarrow> extends tr (snd (k v s1))) \<Longrightarrow>
   extends tr (snd (tryCatch m k))"
  by (cases m; cases "fst m") (auto simp: tryCatch_def)

lemma ext_returning [simp]: "extends tr (snd (returning v m)) = extends tr (snd m)"
  by (simp add: snd_returning)

lemma setBranch_trace:
  "trace (snd (setBranch n c nb s)) = trace s \<and> trace (snd (setBranchLoop n r i s)) = trace s"
proof (induction n arbitrary: c nb s r i)
  case 0
  show ?case by simp
next
  case (Suc n)
  have a: "trace (snd (setBranch (Suc n) c nb s)) = trace s"
    using Suc[of "nextLinks (nodes s c) ! 0" nb "updNode c (\<lambda>d. d\<lparr>branch := Some nb\<rparr>) s" c 0]
    by (simp add: updNode_def)
  have b: "trace (snd (setBranchLoop (Suc n) r i s)) = trace s"
  proof (cases "setBranch n (nextLinks (nodes s r) ! i) (nextLinks (nodes s r) ! i) s")
    case (Pair k s1)
    have "trace s1 = trace s" using Suc[of "nextLinks (nodes s r) ! i" "nextLinks (nodes s r) ! i" s r i] Pair
      by simp
    moreover have "trace (snd (setBranchLoop n r (Suc i) s1)) = trace s1" using Suc by blast
    ultimately show ?thesis using Pair by (cases k) simp_all
  qed
  show ?case using a b by blast
qed

lemma thenD_trace: "trace (snd (thenD n r f s)) = trace s"
proof -
  have l: "trace (snd (linkNext n r s)) = trace s"
    using setBranch_trace
    by (simp add: linkNext_def newDeferred_def reArrangeBranch_def snd_returning updNode_def
        lookup_def split: option.splits)
  show ?thesis
    using l by (cases "linkNext n r s"; cases "fst (linkNext n r s)")
      (auto simp add: thenD_def setTimeout_def updNode_def)
qed

lemma ext_thenD [simp]: "extends tr (snd (thenD n r f s)) = extends tr s"
  by (rule extends_trace) (rule thenD_trace)

lemma ext_orIfError: "extends tr s \<Longrightarrow> extends tr (snd (orIfError r f s))"
  by (simp add: orIfError_def)

lemma ext_callback [simp]: "extends tr (snd (callback r a s)) = extends tr s"
  by (simp add: callback_def)

lemma ext_errback: "extends tr s \<Longrightarrow> extends tr (snd (errback r e s))"
  by (simp add: errback_def)

lemma run_extends: "extends tr s \<Longrightarrow> extends tr (snd (run n ivk s))"
proof (induction n arbitrary: ivk s)
  case 0
  then show ?case by (simp add: run_zero)
next
  case (Suc n)
  note IH = Suc.IH
  note E = ext_andThen ext_tryCatch ext_orIfError ext_errback
  show ?case
  proof (cases ivk)
    case (CallFn f args)
    show ?thesis
    proof (cases f)
      case (User i body)
      then show ?thesis using Suc.prems CallFn by (simp add: run_CallFn_User)
    next
      case (SpliceThen o1 i1 d1)
      then show ?thesis using Suc.prems CallFn
        by (auto simp: run_CallFn_SpliceThen intro!: IH split: option.splits)
    next
      case (SpliceErr o1 i1 d1)
      then show ?thesis using Suc.prems CallFn
        by (auto simp: run_CallFn_SpliceErr intro!: IH split: option.splits)
    next
      case (WhenThen w i1)
      then show ?thesis using Suc.prems CallFn
        by (auto simp: run_CallFn_WhenThen intro!: E IH)
    next
      case (WhenErr w)
      then show ?thesis using Suc.prems CallFn
        by (auto simp: run_CallFn_WhenErr intro!: IH)
    next
      case (SelectThen q i1)
      then show ?thesis using Suc.prems CallFn
        by (auto simp: run_CallFn_SelectThen intro!: E IH)
    next
      case (SelectErr q)
      then show ?thesis using Suc.prems CallFn
        by (auto simp: run_CallFn_SelectErr intro!: E IH)
    next
      case SelectId
      then show ?thesis using Suc.prems CallFn by (simp add: run_CallFn_SelectId)
    qed
  next
    case (ForEachFn fns r args i)
    then show ?thesis using Suc.prems by (auto simp: run_ForEachFn intro!: E IH)
  next
    case (RunErrback r e ff)
    then show ?thesis using Suc.prems
      by (auto simp: run_RunErrback intro!: E IH split: option.splits)
  next
    case (ErrbackLoop r e i eh)
    then show ?thesis using Suc.prems by (auto simp: run_ErrbackLoop intro!: E IH)
  next
    case (ErrbackNextLoop r j eh)
    then show ?thesis using Suc.prems by (auto simp: run_ErrbackNextLoop intro!: E IH)
  next
    case (FinishErrback r eh)
    then show ?thesis using Suc.prems
      by (auto simp: run_FinishErrback intro!: E IH split: option.splits)
  next
    case (RunCallback r args)
    then show ?thesis using Suc.prems
      by (auto simp: run_RunCallback intro!: E IH split: option.splits)
  next
    case (CallbackLoop r args i)
    then show ?thesis using Suc.prems
      by (auto simp: run_CallbackLoop intro!: E IH split: option.splits)
  next
    case (CallbackBody r args i)
    then show ?thesis using Suc.prems
      by (auto simp: run_CallbackBody intro!: E IH split: option.splits)
  next
    case (PropagateAbort r args)
    then show ?thesis using Suc.prems by (auto simp: run_PropagateAbort intro!: E IH)
  next
    case (RunAbortFunctions r)
    then show ?thesis using Suc.prems by (auto simp: run_RunAbortFunctions intro!: E IH)
  next
    case (AbortNextLoop r i)
    then show ?thesis using Suc.prems by (auto simp: run_AbortNextLoop intro!: E IH)
  next
    case (Abort r args)
    then show ?thesis using Suc.prems by (auto simp: run_Abort intro!: E IH)
  next
    case (Progress r dn oo)
    then show ?thesis using Suc.prems by (auto simp: run_Progress intro!: E IH)
  next
    case (PartialResult r v)
    then show ?thesis using Suc.prems by (auto simp: run_PartialResult intro!: E IH)
  next
    case (SelectAbortLoop q i2)
    then show ?thesis using Suc.prems
      by (auto simp: run_SelectAbortLoop intro!: E IH split: option.splits)
  qed
qed

section \<open>Plain callbacks in the loop of runCallback\<close>

lemma callFn_plain:
  assumes "returnsPlain args f"
  shows "callFn (Suc n) f args s = (Returned (resultOf args f), s\<lparr>trace := trace s @ callEvent f args\<rparr>)"
    and "asDeferred (resultOf args f) = None"
proof -
  obtain i b where f: "f = User i b" using assms by (cases f) auto
  show "callFn (Suc n) f args s = (Returned (resultOf args f), s\<lparr>trace := trace s @ callEvent f args\<rparr>)"
    using assms by (cases "b args") (simp_all add: f run_CallFn_User)
  show "asDeferred (resultOf args f) = None"
    using assms by (cases "b args") (simp_all add: f)
qed

lemma plain_iteration:
  assumes j: "j < length (callbackFunctions (nodes s d))" "j < length (nextLinks (nodes s d))"
    and c: "nextLinks (nodes s d) ! j = c" and f: "callbackFunctions (nodes s d) ! j = f"
    and p: "returnsPlain args f" and l: "leaf s c" and cd: "c \<noteq> d"
  shows "run (Suc (Suc (Suc (Suc n)))) (CallbackLoop d args j) s =
         run (Suc (Suc (Suc n))) (CallbackLoop d args (Suc j)) (plainStep args (c, f) s)"
proof -
  define s1 where "s1 = s\<lparr>trace := trace s @ callEvent f args\<rparr>"
  have n1: "nodes s1 = nodes s" by (simp add: s1_def)
  have cf: "callFn (Suc (Suc n)) f args s = (Returned (resultOf args f), s1)"
    unfolding s1_def by (rule callFn_plain(1)[OF p])
  have rc: "runCallback (Suc (Suc n)) c [resultOf args f] s1 = (Returned VUndef, plainStep args (c, f) s)"
    unfolding plainStep_def s1_def fst_conv snd_conv
    using l by (intro leaf_runCallback) (simp_all add: leaf_def)
  have b: "run (Suc (Suc (Suc n))) (CallbackBody d args j) s = (Returned VUndef, plainStep args (c, f) s)"
    using j c f cf rc callFn_plain(2)[OF p]
    by (simp add: run_CallbackBody lookup_def andThen_def n1)
  show ?thesis
    using j c l b by (simp add: run_CallbackLoop lookup_def andThen_def tryCatch_def leaf_def)
qed

lemma plainStep_fields [simp]:
  "queue (plainStep args cf s) = queue s"
  "trace (plainStep args cf s) = trace s @ callEvent (snd cf) args"
  "nxt (plainStep args cf s) = nxt s"
  "defaultErrorHandler (plainStep args cf s) = defaultErrorHandler s"
  "whenFrames (plainStep args cf s) = whenFrames s"
  "selectFrames (plainStep args cf s) = selectFrames s"
  by (simp_all add: plainStep_def)

lemma plainStep_nodes:
  "nodes (plainStep args cf s) y =
     (if y = fst cf then (nodes s y)\<lparr>callbacked := True, callbackArgs := [resultOf args (snd cf)],
                                    root := None, branch := None\<rparr>
      else nodes s y)"
  by (simp add: plainStep_def updNode_def)

lemma plainRun_fields [simp]:
  "queue (fold (plainStep args) cfs s) = queue s"
  "trace (fold (plainStep args) cfs s) = trace s @ concat (map (\<lambda>cf. callEvent (snd cf) args) cfs)"
  "nxt (fold (plainStep args) cfs s) = nxt s"
  "defaultErrorHandler (fold (plainStep args) cfs s) = defaultErrorHandler s"
  by (induction cfs arbitrary: s) simp_all

lemma plainRun_other:
  "y \<notin> fst ` set cfs \<Longrightarrow> nodes (fold (plainStep args) cfs s) y = nodes s y"
  by (induction cfs arbitrary: s) (simp_all add: plainStep_nodes)

lemma plainRun_child:
  "distinct (map fst cfs) \<Longrightarrow> (c, f) \<in> set cfs \<Longrightarrow>
   nodes (fold (plainStep args) cfs s) c =
     (nodes s c)\<lparr>callbacked := True, callbackArgs := [resultOf args f], root := None, branch := None\<rparr>"
proof (induction cfs arbitrary: s)
  case Nil
  then show ?case by simp
next
  case (Cons cf cfs)
  show ?case
  proof (cases "cf = (c, f)")
    case True
    then have "c \<notin> fst ` set cfs" using Cons.prems(1) by auto
    then show ?thesis using True by (simp add: plainRun_other plainStep_nodes)
  next
    case False
    then have m: "(c, f) \<in> set cfs" using Cons.prems(2) by simp
    then have "c \<in> fst ` set cfs" by force
    then have "fst cf \<noteq> c" using Cons.prems(1) by auto
    then show ?thesis using Cons.IH[OF _ m] Cons.prems(1) by (simp add: plainStep_nodes)
  qed
qed

text \<open>The loop of \<^verbatim>\<open>runCallback\<close> over callbacks that return plain values to pending leaves.\<close>

lemma plain_loop:
  assumes d: "distinct nl" and dn: "d \<notin> set nl"
  shows "callbackFunctions (nodes s d) = cbs \<Longrightarrow> nextLinks (nodes s d) = nl \<Longrightarrow>
     m \<le> length cbs \<Longrightarrow> m \<le> length nl \<Longrightarrow> i \<le> m \<Longrightarrow>
     (\<forall>j. i \<le> j \<and> j < m \<longrightarrow> returnsPlain args (cbs ! j) \<and> leaf s (nl ! j)) \<Longrightarrow>
     k = m - i \<Longrightarrow>
     run (k + (Suc (Suc (Suc n)))) (CallbackLoop d args i) s =
     run (Suc (Suc (Suc n))) (CallbackLoop d args m)
        (fold (plainStep args) (map (\<lambda>j. (nl ! j, cbs ! j)) [i..<m]) s)"
proof (induction k arbitrary: i s)
  case 0
  then have "i = m" by simp
  then show ?case by simp
next
  case (Suc k)
  then have im: "i < m" and km: "k = m - Suc i" by simp_all
  define c where "c = nl ! i"
  define f where "f = cbs ! i"
  define s1 where "s1 = plainStep args (c, f) s"
  have il: "i < length cbs" "i < length nl" using im Suc.prems(3,4) by simp_all
  have cin: "c \<in> set nl" using il by (simp add: c_def)
  then have cd: "c \<noteq> d" using dn by auto
  have pl: "returnsPlain args f" "leaf s c" using Suc.prems(6) im by (simp_all add: f_def c_def)
  have it: "run (Suc (Suc (Suc (Suc (k + n))))) (CallbackLoop d args i) s =
         run (Suc (Suc (Suc (k + n)))) (CallbackLoop d args (Suc i)) s1"
    unfolding s1_def
    by (rule plain_iteration) (simp_all add: Suc.prems(1,2) il c_def f_def pl[unfolded c_def f_def] cd[unfolded c_def])
  have n1: "nodes s1 y = (if y = c then (nodes s y)\<lparr>callbacked := True, callbackArgs := [resultOf args f],
                                    root := None, branch := None\<rparr> else nodes s y)" for y
    by (simp add: s1_def plainStep_nodes)
  have d1: "callbackFunctions (nodes s1 d) = cbs" "nextLinks (nodes s1 d) = nl"
    using cd Suc.prems(1,2) by (simp_all add: n1)
  have later: "\<forall>j. Suc i \<le> j \<and> j < m \<longrightarrow> returnsPlain args (cbs ! j) \<and> leaf s1 (nl ! j)"
  proof (intro allI impI)
    fix j assume j: "Suc i \<le> j \<and> j < m"
    then have "j < length nl" "j \<noteq> i" using Suc.prems(4) by simp_all
    then have "nl ! j \<noteq> c" using d il by (simp add: c_def nth_eq_iff_index_eq)
    then have "leaf s1 (nl ! j) = leaf s (nl ! j)" by (simp add: leaf_def n1)
    then show "returnsPlain args (cbs ! j) \<and> leaf s1 (nl ! j)" using Suc.prems(6) j by simp
  qed
  have si: "Suc i \<le> m" using im by simp
  have upt: "[i..<m] = i # [Suc i..<m]" using im by (simp add: upt_conv_Cons)
  have "run (k + (Suc (Suc (Suc n)))) (CallbackLoop d args (Suc i)) s1 =
     run (Suc (Suc (Suc n))) (CallbackLoop d args m)
        (fold (plainStep args) (map (\<lambda>j. (nl ! j, cbs ! j)) [Suc i..<m]) s1)"
    by (rule Suc.IH[OF d1 Suc.prems(3,4) si later km])
  then show ?case using it by (simp add: upt s1_def c_def f_def)
qed

section \<open>Attaching before or after resolution\<close>





section \<open>The finally hook\<close>

text \<open>
  Claim C10. When a finally hook has been set with \<^verbatim>\<open>andAtLast\<close> (or \<^verbatim>\<open>finally\<close>), then
  when \<^verbatim>\<open>runCallback\<close> of that node executes, the hook is invoked and none of the
  registered success callbacks is, so none of the children advances.

  For every node that is not yet callbacked or errbacked and has no hook, every user
  function set as its hook, and every fuel of at least two units: \<^verbatim>\<open>andAtLast\<close> returns,
  and \<^verbatim>\<open>runCallback\<close> then marks the node callbacked, records the arguments and calls the
  hook with no arguments. Nothing else changes: the call of the hook is the only new
  event, no task is scheduled, and every other node, so every child, is as it was.
  \<^verbatim>\<open>runCallback\<close> returns unless the hook throws. Any later \<^verbatim>\<open>runCallback\<close> on the node
  throws \<^verbatim>\<open>AlreadyCallbacked\<close> and changes nothing, so the callbacks are never run.
\<close>

theorem finally_hook_replaces_callbacks:
  assumes "finallyFunction (nodes s0 r) = None"
    and "\<not> callbacked (nodes s0 r)" and "\<not> errbacked (nodes s0 r)"
  shows "\<exists>s s'. andAtLast r (User i body) s0 = (Returned VUndef, s) \<and>
           runCallback (Suc (Suc n)) r args s =
             ((case body [] of Return v \<Rightarrow> Returned VUndef | Throw e \<Rightarrow> Thrown e), s') \<and>
           s' = s\<lparr>nodes := (nodes s)(r := (nodes s r)\<lparr>callbacked := True, callbackArgs := args\<rparr>),
                  trace := trace s @ [Invoked i []]\<rparr> \<and>
           runCallback (Suc k) r args2 s' = (Thrown (VError AlreadyCallbacked), s')"
  using assms
  by (simp add: andAtLast_def updNode_def returning_def run.simps split: outcome.splits)

theorem finally_hook_replaces_callbacks_witness:
  "finallyFunction (nodes (snd (thenD 5 0 (returns 1 (VNum 5)) (snd (newDeferred None None initState)))) 0) = None \<and>
   \<not> callbacked (nodes (snd (thenD 5 0 (returns 1 (VNum 5)) (snd (newDeferred None None initState)))) 0) \<and>
   \<not> errbacked (nodes (snd (thenD 5 0 (returns 1 (VNum 5)) (snd (newDeferred None None initState)))) 0) \<and>
   length (callbackFunctions (nodes finallyExample 0)) = 1 \<and>
   nextLinks (nodes finallyExample 0) = [1] \<and>
   trace (snd (runCallback 2 0 [VNum 3] finallyExample)) = [Invoked 2 []] \<and>
   \<not> callbacked (nodes (snd (runCallback 2 0 [VNum 3] finallyExample)) 1)"
  using finally_hook_replaces_callbacks[where ?s0.0="snd (thenD 5 0 (returns 1 (VNum 5)) (snd (newDeferred None None initState)))"
          and r=0 and i=2 and body="\<lambda>args. Return VUndef" and n=0 and args="[VNum 3]"]
  by (simp add: finallyExample_def andAtLast_def returns_def thenD_def linkNext_def
      newDeferred_def initState_def updNode_def emptyNode_def eval_nat_numeral run.simps)

section \<open>Error bubbling\<close>

text \<open>
  Claim C1. When an error reaches a node that has no local error handler and several
  children, the error counts as handled only if every child subtree reports it handled:
  \<^verbatim>\<open>runErrback\<close> is invoked on every child, and the default handler runs unless all
  children report handled. The comment of lines 143-145 says the same.

  The code does not do this. Line 148 joins the children's reports with \<^verbatim>\<open>||\<close>, which
  stops evaluating at the first child that reports handled. In the program below node 0
  has no handler and two children: node 1 with a handler (function 2) and node 2 with
  none. After \<^verbatim>\<open>errback\<close> on node 0 the handler of node 1 has run, \<^verbatim>\<open>runErrback\<close> was
  never invoked on node 2 (it is not errbacked), and the registered default handler
  (function 9) was never called: the only event is the call of function 2.
\<close>

theorem runErrback_stops_at_first_handled_child:
  "map_option (\<lambda>s. (errbacked (nodes s 0), nextLinks (nodes s 0),
                     errbacked (nodes s 1), length (errbackFunctions (nodes s 1)),
                     errbacked (nodes s 2), length (errbackFunctions (nodes s 2)),
                     trace s))
     (program 20
        [RegisterDefaultErrorHandler (returns 9 VUndef),
         New,
         Then 0 (returns 1 VUndef), OrIfError 1 (returns 2 VUndef),
         Then 0 (returns 3 VUndef),
         Errback 0 (VStr ''E''), Yield] initState)
   = Some (True, [1, 2], True, 1, False, 0, [Invoked 2 [VStr ''E'']])"
  by code_simp

section \<open>Terminal states\<close>

text \<open>
  Claim C2. A node enters at most one terminal state, once: over every sequence of calls
  of \<^verbatim>\<open>callback\<close>, \<^verbatim>\<open>errback\<close> and \<^verbatim>\<open>abort\<close> at most one of the flags \<^verbatim>\<open>callbacked\<close>,
  \<^verbatim>\<open>errbacked\<close>, \<^verbatim>\<open>aborted\<close> is ever set.

  The code does not keep this. \<^verbatim>\<open>abort\<close> refuses a callbacked or errbacked node (lines
  401-408) and \<^verbatim>\<open>runCallback\<close> returns on an errbacked one (line 183), but neither
  \<^verbatim>\<open>errback\<close> nor \<^verbatim>\<open>runErrback\<close> looks at \<^verbatim>\<open>callbacked\<close>, and \<^verbatim>\<open>runCallback\<close> does not
  look at \<^verbatim>\<open>aborted\<close>. So \<^verbatim>\<open>callback\<close> followed by \<^verbatim>\<open>errback\<close> leaves node 0 both
  callbacked and errbacked, and \<^verbatim>\<open>callback\<close> followed by \<^verbatim>\<open>abort\<close> before the host runs
  the pending task leaves it both aborted and callbacked.
\<close>

theorem callback_then_errback_sets_two_flags:
  "map_option (\<lambda>s. (callbacked (nodes s 0), errbacked (nodes s 0), aborted (nodes s 0), trace s))
     (program 20
        [New, OrIfError 0 (returns 1 VUndef),
         Callback 0 [VNum 1], Errback 0 (VStr ''E''), Yield] initState)
   = Some (True, True, False, [Invoked 1 [VStr ''E'']])
   \<and>
   map_option (\<lambda>s. (callbacked (nodes s 0), errbacked (nodes s 0), aborted (nodes s 0), trace s))
     (program 20
        [New, Callback 0 [VNum 1], AbortIt 0 [], Yield] initState)
   = Some (True, False, True, [])"
  by code_simp

section \<open>Late registration of an error handler\<close>

text \<open>
  Claim C7. \<^verbatim>\<open>orIfError\<close> on a node that is already errbacked invokes the new handler,
  after one turn of the event loop, with the recorded error.

  The code does not do this. The task scheduled at lines 355-364 calls
  \<^verbatim>\<open>errbackFunctions(errbackError)\<close>: the array itself, not the new handler. Calling an
  array throws a TypeError, which the \<^verbatim>\<open>catch\<close> of line 361 logs. In the program below
  node 0 is errbacked with ''E'' and its first handler (function 1) has run; the handler
  registered afterwards (function 2) is stored but never called, and the console gets the
  message of line 362.
\<close>

theorem orIfError_on_errbacked_never_calls_handler:
  "map_option (\<lambda>s. (errbacked (nodes s 0), errbackError (nodes s 0),
                     length (errbackFunctions (nodes s 0)), length (queue s), trace s))
     (program 20
        [New, OrIfError 0 (returns 1 VUndef), Errback 0 (VStr ''E''), Yield,
         OrIfError 0 (returns 2 VUndef), Yield] initState)
   = Some (True, VStr ''E'', 2, 0, [Invoked 1 [VStr ''E''], ConsoleLog LogErrorInErrback])"
  by code_simp

section \<open>Progress listeners\<close>

text \<open>
  Claim C9. \<^verbatim>\<open>onProgress\<close> registers a listener and, when a progress tuple was broadcast
  on the node before, invokes the new listener at once with the most recent tuple.

  The code registers the listener but never invokes it at registration. \<^verbatim>\<open>onProgress\<close>
  tests the variables \<^verbatim>\<open>done\<close> and \<^verbatim>\<open>outOf\<close> of the constructor (line 455), and
  \<^verbatim>\<open>progress(done, outOf)\<close> has parameters of the same names (line 437), so it never
  assigns them: they stay undefined. In the program below \<^verbatim>\<open>progress(1, 2)\<close> is
  broadcast on node 0 and a listener (function 1) is registered afterwards: the listener
  is stored, the two variables are undefined, and no function was called.
\<close>

theorem onProgress_after_progress_calls_nothing:
  "map_option (\<lambda>s. (length (progressFunctions (nodes s 0)),
                     doneVar (nodes s 0), outOfVar (nodes s 0), trace s))
     (program 20
        [New, ProgressIt 0 (VNum 1) (VNum 2), OnProgress 0 (returns 1 VUndef), Yield] initState)
   = Some (1, VUndef, VUndef, [])"
  by code_simp

section \<open>Branch pointers after then\<close>




section \<open>Splicing a returned Deferred\<close>







section \<open>Claim C6: select resolves with the first success and aborts the others\<close>




section \<open>Claim C8: when after the first failure of an input\<close>




end
